theory Spec2Isabelle
  imports Complex_Main "HOL-Library.Char_ord" "HOL-Library.List_Lexorder"
    "HOL-Library.Product_Lexorder"
begin

section \<open>Values, tables and errors\<close>

text \<open>
  A Python float is a finite number, an infinity or nan. Finite values are kept as exact
  rationals: rounding to binary64 is not modelled.
\<close>

datatype pyfloat = Fin rat | PosInf | NegInf | NaN

text \<open>Comparison of floats as Python does it: every comparison with nan is false.\<close>

fun pf_less :: "pyfloat \<Rightarrow> pyfloat \<Rightarrow> bool" where
  "pf_less NaN _ = False"
| "pf_less _ NaN = False"
| "pf_less (Fin a) (Fin b) = (a < b)"
| "pf_less (Fin _) PosInf = True"
| "pf_less (Fin _) NegInf = False"
| "pf_less PosInf _ = False"
| "pf_less NegInf NegInf = False"
| "pf_less NegInf _ = True"

fun pf_ge :: "pyfloat \<Rightarrow> pyfloat \<Rightarrow> bool" where
  "pf_ge NaN _ = False"
| "pf_ge _ NaN = False"
| "pf_ge a b = (\<not> pf_less a b)"

fun pf_neg :: "pyfloat \<Rightarrow> pyfloat" where
  "pf_neg (Fin a) = Fin (- a)"
| "pf_neg PosInf = NegInf"
| "pf_neg NegInf = PosInf"
| "pf_neg NaN = NaN"

fun pf_add :: "pyfloat \<Rightarrow> pyfloat \<Rightarrow> pyfloat" where
  "pf_add NaN _ = NaN"
| "pf_add _ NaN = NaN"
| "pf_add (Fin a) (Fin b) = Fin (a + b)"
| "pf_add (Fin _) b = b"
| "pf_add a (Fin _) = a"
| "pf_add PosInf PosInf = PosInf"
| "pf_add NegInf NegInf = NegInf"
| "pf_add PosInf NegInf = NaN"
| "pf_add NegInf PosInf = NaN"

definition pf_sub :: "pyfloat \<Rightarrow> pyfloat \<Rightarrow> pyfloat" where
  "pf_sub a b = pf_add a (pf_neg b)"

text \<open>Sign of a float that is not nan: \<open>-1\<close>, \<open>0\<close> or \<open>1\<close>.\<close>

fun pf_sgn :: "pyfloat \<Rightarrow> rat" where
  "pf_sgn (Fin a) = sgn a"
| "pf_sgn PosInf = 1"
| "pf_sgn NegInf = - 1"
| "pf_sgn NaN = 0"

definition inf_of_sign :: "rat \<Rightarrow> pyfloat" where
  "inf_of_sign s = (if s = 0 then NaN else if 0 < s then PosInf else NegInf)"

fun pf_mul :: "pyfloat \<Rightarrow> pyfloat \<Rightarrow> pyfloat" where
  "pf_mul NaN _ = NaN"
| "pf_mul _ NaN = NaN"
| "pf_mul (Fin a) (Fin b) = Fin (a * b)"
| "pf_mul a b = inf_of_sign (pf_sgn a * pf_sgn b)"

text \<open>Division by a finite, non-zero number (the only division the code performs).\<close>

fun pf_div_fin :: "pyfloat \<Rightarrow> rat \<Rightarrow> pyfloat" where
  "pf_div_fin (Fin a) d = Fin (a / d)"
| "pf_div_fin NaN d = NaN"
| "pf_div_fin a d = inf_of_sign (pf_sgn a * sgn d)"

text \<open>
  A table cell is a number or a string. pandas treats \<open>None\<close> and nan alike as missing;
  both are the cell \<open>Num NaN\<close>.
\<close>

datatype cell = Num pyfloat | Str string

definition isna :: "cell \<Rightarrow> bool" where
  "isna c = (c = Num NaN)"

datatype dtype = Numeric | Object

text \<open>
  A DataFrame: the columns with their dtypes, in order, and the rows, each with its index
  label and one cell per column. A Series is a list of labelled cells.
\<close>

record dataframe =
  columns :: "(string \<times> dtype) list"
  rows :: "(nat \<times> cell list) list"

type_synonym series = "(nat \<times> cell) list"

definition colnames :: "dataframe \<Rightarrow> string list" where
  "colnames d = map fst (columns d)"

text \<open>\<open>df.empty\<close>: an axis of length zero.\<close>

definition df_empty :: "dataframe \<Rightarrow> bool" where
  "df_empty d = (columns d = [] \<or> rows d = [])"

text \<open>The cell of a row in a named column (missing where the row is too short).\<close>

definition cell_of :: "dataframe \<Rightarrow> string \<Rightarrow> cell list \<Rightarrow> cell" where
  "cell_of d c cs = (case map_of (zip (colnames d) cs) c of Some v \<Rightarrow> v | None \<Rightarrow> Num NaN)"

text \<open>\<open>df[c]\<close> for a column that exists.\<close>

definition getcol :: "dataframe \<Rightarrow> string \<Rightarrow> series" where
  "getcol d c = map (\<lambda>(i, cs). (i, cell_of d c cs)) (rows d)"

definition dtype_of :: "dataframe \<Rightarrow> string \<Rightarrow> dtype" where
  "dtype_of d c = (case map_of (columns d) c of Some t \<Rightarrow> t | None \<Rightarrow> Object)"

text \<open>\<open>series.dropna()\<close>, \<open>series.empty\<close> and \<open>series.to_numpy()\<close>.\<close>

definition dropna_series :: "series \<Rightarrow> series" where
  "dropna_series s = filter (\<lambda>(i, v). \<not> isna v) s"

definition to_numpy :: "series \<Rightarrow> cell list" where
  "to_numpy s = map snd s"

text \<open>\<open>df[cols]\<close>: the named columns, in the order asked for.\<close>

definition select_cols :: "dataframe \<Rightarrow> string list \<Rightarrow> dataframe" where
  "select_cols d cs =
     \<lparr> columns = map (\<lambda>c. (c, dtype_of d c)) cs,
       rows = map (\<lambda>(i, r). (i, map (\<lambda>c. cell_of d c r) cs)) (rows d) \<rparr>"

text \<open>\<open>df.dropna()\<close>: the rows without a missing cell.\<close>

definition dropna :: "dataframe \<Rightarrow> dataframe" where
  "dropna d = d \<lparr> rows := filter (\<lambda>(i, r). \<not> list_ex isna r) (rows d) \<rparr>"

text \<open>\<open>df[mask]\<close>, the mask given as a predicate on the row.\<close>

definition filter_rows :: "(cell list \<Rightarrow> bool) \<Rightarrow> dataframe \<Rightarrow> dataframe" where
  "filter_rows p d = d \<lparr> rows := filter (\<lambda>(i, r). p r) (rows d) \<rparr>"

text \<open>
  Every \<open>ValueError\<close> the controllers and the regression core raise, one constructor per
  message. \<open>LibraryError\<close> stands for an exception that pandas, statsmodels or a routine
  outside these files raises.
\<close>

datatype error =
    NoDatasetLoaded
  | ColumnNotFound string
  | NoValidData
  | NoCategoricalColumn
  | CategoricalColumnNotFound string
  | NoCategoriesSelected string
  | GroupsEmptyAfterFiltering
  | Mu0Required
  | Mu0NotNumeric
  | AnovaNoCategoricalColumn
  | AnovaNoCategories
  | UnknownHypothesisTest string
  | InsufficientGroups
  | DatasetEmpty
  | ConfidenceRequired
  | ConfidenceNotNumeric
  | ConfidenceOutOfRange
  | RangeForm
  | RangeNotNumeric
  | RangeOrder
  | NoDependentVariable
  | NoIndependentVariable
  | SimpleRegressionNeedsOnePredictor
  | InvalidDependentVariable
  | InvalidIndependentVariable string
  | AtLeastOneIndependentVariable
  | NoValidRows
  | FormulaTextMissing
  | SimpleRegressionOnlyOnePredictor
  | XVectorRequired
  | UnknownGraphType string
  | DescColumnNotFound string
  | DescNoValidData
  | DescNotNumeric
  | WeightsColumnNotFound string
  | WeightsNotNumeric
  | WeightsNegative
  | KeyError string
  | LibraryError string

text \<open>Sequencing of computations that may raise.\<close>

definition bindE :: "error + 'a \<Rightarrow> ('a \<Rightarrow> error + 'b) \<Rightarrow> error + 'b" where
  "bindE m f = (case m of Inl e \<Rightarrow> Inl e | Inr v \<Rightarrow> f v)"

text \<open>
  \<open>np.round(x, decimals)\<close>: scale, round to the nearest integer with ties to the even one,
  scale back; infinities and nan stay as they are.
\<close>

definition round_half_even :: "rat \<Rightarrow> int" where
  "round_half_even x =
     (let f = \<lfloor>x\<rfloor>; r = x - of_int f in
      if r < 1 / 2 then f else if 1 / 2 < r then f + 1 else if even f then f else f + 1)"

fun np_round :: "int \<Rightarrow> pyfloat \<Rightarrow> pyfloat" where
  "np_round decimals (Fin x) =
     (if 0 \<le> decimals
      then Fin (of_int (round_half_even (x * 10 ^ nat decimals)) / 10 ^ nat decimals)
      else Fin (of_int (round_half_even (x / 10 ^ nat (- decimals))) * 10 ^ nat (- decimals)))"
| "np_round decimals v = v"

fun round_cell :: "int \<Rightarrow> cell \<Rightarrow> cell" where
  "round_cell decimals (Num v) = Num (np_round decimals v)"
| "round_cell decimals (Str s) = Str s"

text \<open>\<open>DataFrame.round(decimals)\<close>: the columns of numeric dtype are rounded, the others kept.\<close>

definition round_df :: "int \<Rightarrow> dataframe \<Rightarrow> dataframe" where
  "round_df decimals d =
     d \<lparr> rows := map (\<lambda>(i, r). (i, map (\<lambda>((c, t), v). if t = Numeric then round_cell decimals v else v)
                                        (zip (columns d) r))) (rows d) \<rparr>"

text \<open>
  Sorting keys: floats in their numeric order with nan last, strings in the order of their
  characters. pandas raises \<open>TypeError\<close> when a column mixes numbers and strings.
\<close>

fun pf_key :: "pyfloat \<Rightarrow> int \<times> rat" where
  "pf_key NegInf = (- 1, 0)"
| "pf_key (Fin a) = (0, a)"
| "pf_key PosInf = (1, 0)"
| "pf_key NaN = (2, 0)"

fun cell_key :: "cell \<Rightarrow> (int \<times> rat) \<times> string" where
  "cell_key (Num v) = (pf_key v, [])"
| "cell_key (Str s) = ((0, 0), s)"

fun is_num :: "cell \<Rightarrow> bool" where
  "is_num (Num _) = True"
| "is_num (Str _) = False"

fun is_str :: "cell \<Rightarrow> bool" where
  "is_str (Num _) = False"
| "is_str (Str _) = True"

definition comparable :: "cell list \<Rightarrow> bool" where
  "comparable cs = (list_all is_num cs \<or> list_all is_str cs)"

text \<open>\<open>df.sort_values(x)\<close> and \<open>df.reset_index(drop=True)\<close>.\<close>

definition sort_values :: "dataframe \<Rightarrow> string \<Rightarrow> error + dataframe" where
  "sort_values d x =
     (if comparable (to_numpy (getcol d x))
      then Inr (d \<lparr> rows := sort_key (\<lambda>(i, r). cell_key (cell_of d x r)) (rows d) \<rparr>)
      else Inl (LibraryError ''TypeError''))"

definition reset_index :: "dataframe \<Rightarrow> dataframe" where
  "reset_index d = d \<lparr> rows := zip [0..<length (rows d)] (map snd (rows d)) \<rparr>"

text \<open>\<open>series.min()\<close> and \<open>series.max()\<close> of a series without missing values.\<close>

definition series_min :: "series \<Rightarrow> error + cell" where
  "series_min s =
     (if s = [] then Inr (Num NaN)
      else if comparable (to_numpy s) then Inr (hd (sort_key cell_key (to_numpy s)))
      else Inl (LibraryError ''TypeError''))"

definition series_max :: "series \<Rightarrow> error + cell" where
  "series_max s =
     (if s = [] then Inr (Num NaN)
      else if comparable (to_numpy s) then Inr (last (sort_key cell_key (to_numpy s)))
      else Inl (LibraryError ''TypeError''))"

section \<open>The regression core: \<open>core/linear_regression.py\<close>\<close>

text \<open>
  statsmodels is outside the repository. Its entry points are parameters of the model:
  fitting by formula and by design matrix, \<open>add_constant\<close>, the summary (its HTML and its
  coefficient table with the \<open>Variable\<close> column) and the prediction table
  (\<open>get_prediction(X).summary_frame(alpha)\<close>, with no \<open>X\<close> for the fitted data).
\<close>

record 'm statsmodels =
  smf_ols_fit :: "dataframe \<Rightarrow> string \<Rightarrow> error + 'm"
  sm_OLS_fit :: "series \<Rightarrow> dataframe \<Rightarrow> error + 'm"
  sm_add_constant :: "dataframe \<Rightarrow> dataframe"
  summary2 :: "'m \<Rightarrow> pyfloat \<Rightarrow> error + string \<times> dataframe"
  get_prediction :: "'m \<Rightarrow> dataframe option \<Rightarrow> pyfloat \<Rightarrow> error + dataframe"

text \<open>
  What a figure shows: for the simple regression plot the points of the fitted line, the
  prediction table drawn from, whether each band is drawn, the shaded spans and the title.
  Axis labels, colours and the \<open>R\<^sup>2\<close> note are left out.
\<close>

datatype figure =
    SimpleRegressionFigure "cell list" dataframe bool bool "(cell \<times> cell) list" string
  | ObservedVsPredictedFigure dataframe

definition plot_simple_regression ::
  "'m statsmodels \<Rightarrow> dataframe \<Rightarrow> string \<Rightarrow> string \<Rightarrow> bool \<Rightarrow> bool \<Rightarrow> string \<Rightarrow> 'm \<Rightarrow> pyfloat
     \<Rightarrow> bool \<Rightarrow> bool \<Rightarrow> bool \<Rightarrow> pyfloat list option \<Rightarrow> error + figure" where
  "plot_simple_regression sm data x y intercept use_formula formula_latex model alpha
       show_ci show_pi fit_to_obs x_vector =
     bindE
       (if fit_to_obs then
          bindE (sort_values (dropna (select_cols data [x, y])) x)
            (\<lambda>sorted. let work = reset_index sorted in
               Inr (to_numpy (getcol work x), select_cols work [x]))
        else
          (case x_vector of
             None \<Rightarrow> Inl XVectorRequired
           | Some x_arr \<Rightarrow>
               Inr (map Num x_arr,
                    \<lparr> columns = [(x, Numeric)],
                      rows = zip [0..<length x_arr] (map (\<lambda>v. [Num v]) x_arr) \<rparr>)))
       (\<lambda>(x_plot, X_pred0).
          let X_pred = (if \<not> use_formula \<and> intercept then sm_add_constant sm X_pred0 else X_pred0) in
          bindE (get_prediction sm model (Some X_pred) alpha)
            (\<lambda>pred_table.
               bindE
                 (if \<not> fit_to_obs then
                    bindE (series_min (getcol data x))
                      (\<lambda>xmin. bindE (series_max (getcol data x))
                         (\<lambda>xmax. Inr [(hd x_plot, xmin), (xmax, last x_plot)]))
                  else Inr [])
                 (\<lambda>spans.
                    Inr (SimpleRegressionFigure x_plot pred_table show_ci show_pi spans
                           (if use_formula \<and> formula_latex \<noteq> []
                            then ''Linear Regression: $'' @ formula_latex @ ''$''
                            else ''Linear Regression: '' @ y @ '' ~ '' @ x)))))"

definition plot_observed_vs_predicted ::
  "'m statsmodels \<Rightarrow> dataframe \<Rightarrow> string \<Rightarrow> 'm \<Rightarrow> pyfloat \<Rightarrow> error + figure" where
  "plot_observed_vs_predicted sm data y model alpha =
     bindE (get_prediction sm model None alpha) (\<lambda>pred_table. Inr (ObservedVsPredictedFigure pred_table))"

definition run_linear_regression_core ::
  "'m statsmodels \<Rightarrow> dataframe option \<Rightarrow> bool \<Rightarrow> string \<Rightarrow> string \<Rightarrow> string \<Rightarrow> string list
     \<Rightarrow> pyfloat \<Rightarrow> bool \<Rightarrow> bool \<Rightarrow> string \<Rightarrow> bool \<Rightarrow> bool \<Rightarrow> bool \<Rightarrow> pyfloat list option
     \<Rightarrow> error + string \<times> dataframe \<times> figure option" where
  "run_linear_regression_core sm df formula_check formula_text formula_latex dependent_var
       independent_vars alpha intercept create_graph graph_type show_ci show_pi fit_to_obs x_vector =
     (case df of
        None \<Rightarrow> Inl NoDatasetLoaded
      | Some d \<Rightarrow>
          if df_empty d then Inl NoDatasetLoaded
          else if dependent_var \<notin> set (colnames d) then Inl InvalidDependentVariable
          else
            (case find (\<lambda>col. col \<notin> set (colnames d)) independent_vars of
               Some col \<Rightarrow> Inl (InvalidIndependentVariable col)
             | None \<Rightarrow>
                 if length independent_vars = 0 then Inl AtLeastOneIndependentVariable
                 else
                   (let cols = dependent_var # independent_vars;
                        data = dropna (select_cols d cols)
                    in
                    if df_empty data then Inl NoValidRows
                    else
                      (let y = getcol data dependent_var;
                           X = select_cols data independent_vars
                       in
                       bindE
                         (if formula_check then
                            (if formula_text = [] then Inl FormulaTextMissing
                             else bindE (smf_ols_fit sm data formula_text) (\<lambda>model. Inr (model, True)))
                          else
                            bindE (sm_OLS_fit sm y (if intercept then sm_add_constant sm X else X))
                              (\<lambda>model. Inr (model, False)))
                         (\<lambda>(model, use_formula).
                            bindE (summary2 sm model alpha)
                              (\<lambda>(summary_html, params_table).
                                 bindE
                                   (if create_graph then
                                      (if graph_type = ''Simple Regression'' then
                                         (if length independent_vars \<noteq> 1
                                          then Inl SimpleRegressionOnlyOnePredictor
                                          else
                                            bindE
                                              (plot_simple_regression sm data (independent_vars ! 0)
                                                 dependent_var intercept use_formula formula_latex model
                                                 alpha show_ci show_pi fit_to_obs x_vector)
                                              (\<lambda>fig. Inr (Some fig)))
                                       else if graph_type = ''Observed vs Predicted'' then
                                         bindE (plot_observed_vs_predicted sm data dependent_var model alpha)
                                           (\<lambda>fig. Inr (Some fig))
                                       else Inl (UnknownGraphType graph_type))
                                    else Inr None)
                                   (\<lambda>fig. Inr (summary_html, params_table, fig))))))))"

section \<open>Text handling: \<open>str.strip\<close>, \<open>str.split\<close> and \<open>float\<close>\<close>

text \<open>The ASCII characters Python counts as whitespace.\<close>

definition is_ws :: "char \<Rightarrow> bool" where
  "is_ws c = (let n = (of_char c :: nat) in (9 \<le> n \<and> n \<le> 13) \<or> (28 \<le> n \<and> n \<le> 32))"

definition strip :: "string \<Rightarrow> string" where
  "strip s = rev (dropWhile is_ws (rev (dropWhile is_ws s)))"

fun split_on :: "char \<Rightarrow> string \<Rightarrow> string list" where
  "split_on sep [] = [[]]"
| "split_on sep (c # cs) =
     (if c = sep then [] # split_on sep cs
      else (case split_on sep cs of p # ps \<Rightarrow> (c # p) # ps | [] \<Rightarrow> [[c]]))"

definition digit_val :: "char \<Rightarrow> nat option" where
  "digit_val c = (let n = (of_char c :: nat) in if 48 \<le> n \<and> n \<le> 57 then Some (n - 48) else None)"

definition is_digit :: "char \<Rightarrow> bool" where
  "is_digit c = (digit_val c \<noteq> None)"

definition dval :: "char \<Rightarrow> nat" where
  "dval c = (case digit_val c of Some n \<Rightarrow> n | None \<Rightarrow> 0)"

text \<open>The longest prefix of the form \<open>(["_"] digit)*\<close>: its digits and the rest.\<close>

fun digits_more :: "string \<Rightarrow> nat list \<times> string" where
  "digits_more [] = ([], [])"
| "digits_more [c] = (if is_digit c then ([dval c], []) else ([], [c]))"
| "digits_more (c # d # cs) =
     (if is_digit c then (case digits_more (d # cs) of (ds, r) \<Rightarrow> (dval c # ds, r))
      else if c = CHR ''_'' \<and> is_digit d then (case digits_more cs of (ds, r) \<Rightarrow> (dval d # ds, r))
      else ([], c # d # cs))"

text \<open>\<open>digitpart ::= digit (["_"] digit)*\<close>\<close>

definition digitpart :: "string \<Rightarrow> (nat list \<times> string) option" where
  "digitpart s =
     (case s of [] \<Rightarrow> None
      | c # cs \<Rightarrow> if is_digit c then (case digits_more cs of (ds, r) \<Rightarrow> Some (dval c # ds, r))
                 else None)"

definition digits_value :: "nat list \<Rightarrow> nat" where
  "digits_value ds = foldl (\<lambda>acc d. 10 * acc + d) 0 ds"

text \<open>\<open>number ::= [digitpart] "." digitpart | digitpart ["."]\<close>: integer digits, fraction digits, rest.\<close>

definition number_part :: "string \<Rightarrow> (nat list \<times> nat list \<times> string) option" where
  "number_part s =
     (case digitpart s of
        Some (ip, r) \<Rightarrow>
          (case r of
             c # r' \<Rightarrow>
               if c = CHR ''.'' then
                 (case digitpart r' of Some (fp, r'') \<Rightarrow> Some (ip, fp, r'') | None \<Rightarrow> Some (ip, [], r'))
               else Some (ip, [], r)
           | [] \<Rightarrow> Some (ip, [], r))
      | None \<Rightarrow>
          (case s of
             c # r' \<Rightarrow>
               if c = CHR ''.'' then
                 (case digitpart r' of Some (fp, r'') \<Rightarrow> Some ([], fp, r'') | None \<Rightarrow> None)
               else None
           | [] \<Rightarrow> None))"

text \<open>An optional sign: whether it is a minus, and the rest.\<close>

definition take_sign :: "string \<Rightarrow> bool \<times> string" where
  "take_sign s =
     (case s of [] \<Rightarrow> (False, [])
      | c # cs \<Rightarrow> if c = CHR ''-'' then (True, cs) else if c = CHR ''+'' then (False, cs) else (False, s))"

text \<open>\<open>exponent ::= ("e" | "E") [sign] digitpart\<close>, which must end the text; no exponent is 0.\<close>

definition exponent_part :: "string \<Rightarrow> int option" where
  "exponent_part s =
     (case s of [] \<Rightarrow> Some 0
      | c # cs \<Rightarrow>
          if c = CHR ''e'' \<or> c = CHR ''E'' then
            (case take_sign cs of (neg, r) \<Rightarrow>
               (case digitpart r of
                  Some (ds, []) \<Rightarrow> Some (if neg then - int (digits_value ds) else int (digits_value ds))
                | Some (ds, _ # _) \<Rightarrow> None
                | None \<Rightarrow> None))
          else None)"

definition pow10 :: "int \<Rightarrow> rat" where
  "pow10 e = (if 0 \<le> e then 10 ^ nat e else 1 / 10 ^ nat (- e))"

text \<open>A word matched without regard to case; the pattern is given in lower case.\<close>

fun ci_match :: "string \<Rightarrow> string \<Rightarrow> bool" where
  "ci_match [] [] = True"
| "ci_match (p # ps) (c # cs) = ((c = p \<or> (of_char c :: nat) + 32 = of_char p) \<and> ci_match ps cs)"
| "ci_match _ _ = False"

text \<open>
  Python's \<open>float(s)\<close> on ASCII text, \<open>None\<close> where it raises \<open>ValueError\<close>:
  \<open>floatvalue ::= [sign] (number [exponent] | "inf" | "infinity" | "nan")\<close> between
  optional whitespace.
\<close>

definition py_float :: "string \<Rightarrow> pyfloat option" where
  "py_float s =
     (case take_sign (strip s) of (neg, u) \<Rightarrow>
        if ci_match ''inf'' u \<or> ci_match ''infinity'' u then Some (if neg then NegInf else PosInf)
        else if ci_match ''nan'' u then Some NaN
        else
          (case number_part u of
             None \<Rightarrow> None
           | Some (ip, fp, r) \<Rightarrow>
               (case exponent_part r of
                  None \<Rightarrow> None
                | Some e \<Rightarrow>
                    Some (Fin ((if neg then - 1 else 1) * of_nat (digits_value (ip @ fp))
                               * pow10 (e - int (length fp)))))))"

section \<open>The regression controller: \<open>controllers/linear_regression_controller.py\<close>\<close>

definition select_working_dataframe ::
  "dataframe option \<Rightarrow> dataframe option \<Rightarrow> error + dataframe" where
  "select_working_dataframe df filtered_df =
     (case df of
        None \<Rightarrow> Inl NoDatasetLoaded
      | Some d \<Rightarrow>
          if filtered_df \<noteq> None \<and> \<not> df_empty (the filtered_df) then Inr (the filtered_df)
          else if df_empty d then Inl DatasetEmpty
          else Inr d)"

text \<open>The significance level for a confidence level given as text.\<close>

definition parse_confidence_level :: "string \<Rightarrow> error + pyfloat" where
  "parse_confidence_level text =
     (let s = strip text in
      if s = [] then Inl ConfidenceRequired
      else
        (case py_float s of
           None \<Rightarrow> Inl ConfidenceNotNumeric
         | Some level \<Rightarrow>
             if \<not> (pf_less (Fin 0) level \<and> pf_less level (Fin 1)) then Inl ConfidenceOutOfRange
             else Inr (pf_sub (Fin 1) level)))"

text \<open>
  \<open>np.linspace(start, stop, num)\<close> with its defaults, as numpy computes it: the steps are
  added to \<open>start\<close> and the last point is set to \<open>stop\<close>.
\<close>

definition np_linspace :: "pyfloat \<Rightarrow> pyfloat \<Rightarrow> nat \<Rightarrow> pyfloat list" where
  "np_linspace start stop num =
     (let dv = num - 1;
          y = map (\<lambda>i. Fin (of_nat i)) [0..<num];
          delta = pf_sub stop start;
          y1 = (if 0 < dv then
                  (let step = pf_div_fin delta (of_nat dv) in
                   if step = Fin 0 then map (\<lambda>v. pf_mul (pf_div_fin v (of_nat dv)) delta) y
                   else map (\<lambda>v. pf_mul v step) y)
                else map (\<lambda>v. pf_mul v delta) y);
          y2 = map (\<lambda>v. pf_add v start) y1
      in if 1 < num then butlast y2 @ [stop] else y2)"

text \<open>The prediction grid for a range given as text; no grid for blank text.\<close>

definition parse_range :: "string \<Rightarrow> error + pyfloat list option" where
  "parse_range text =
     (let s = strip text in
      if s = [] then Inr None
      else
        (let parts = split_on CHR '','' s in
         if length parts \<noteq> 2 then Inl RangeForm
         else
           (case py_float (strip (parts ! 0)) of
              None \<Rightarrow> Inl RangeNotNumeric
            | Some lo \<Rightarrow>
                (case py_float (strip (parts ! 1)) of
                   None \<Rightarrow> Inl RangeNotNumeric
                 | Some hi \<Rightarrow>
                     if pf_ge lo hi then Inl RangeOrder
                     else Inr (Some (np_linspace lo hi 100))))))"

text \<open>
  The controller of the Linear Regression tab. \<open>display_precision\<close> is the field of the
  session state it reads.
\<close>

definition run_linear_regression ::
  "'m statsmodels \<Rightarrow> int \<Rightarrow> dataframe option \<Rightarrow> dataframe option \<Rightarrow> bool \<Rightarrow> string \<Rightarrow> string
     \<Rightarrow> string option \<Rightarrow> string list \<Rightarrow> string \<Rightarrow> bool \<Rightarrow> bool \<Rightarrow> string \<Rightarrow> bool \<Rightarrow> bool \<Rightarrow> bool
     \<Rightarrow> string \<Rightarrow> error + string \<times> dataframe \<times> figure option" where
  "run_linear_regression sm display_precision df filtered_df formula_check formula_text formula_latex
       dependent_var independent_vars alpha_input intercept graph_check graph_type show_ci show_pi
       fit_to_obs x_range_text =
     bindE (select_working_dataframe df filtered_df)
       (\<lambda>working_df.
          if dependent_var = None \<or> dependent_var = Some [] then Inl NoDependentVariable
          else if independent_vars = [] then Inl NoIndependentVariable
          else if graph_check \<and> graph_type = ''Simple Regression'' \<and> length independent_vars \<noteq> 1
          then Inl SimpleRegressionNeedsOnePredictor
          else
            bindE (parse_confidence_level alpha_input)
              (\<lambda>alpha.
                 bindE
                   (if graph_check \<and> graph_type = ''Simple Regression'' \<and> \<not> fit_to_obs
                    then parse_range x_range_text else Inr None)
                   (\<lambda>x_vector.
                      bindE
                        (run_linear_regression_core sm (Some working_df) formula_check formula_text
                           formula_latex (the dependent_var) independent_vars alpha intercept
                           graph_check graph_type show_ci show_pi fit_to_obs x_vector)
                        (\<lambda>(summary_html, params_df, fig).
                           Inr (summary_html, round_df display_precision params_df, fig)))))"

section \<open>The hypothesis-test controller: \<open>controllers/hypothesis_controller.py\<close>\<close>

text \<open>
  The test routines live in \<open>core/hypothesis_tests.py\<close>, outside these files. They are
  parameters of the model, each with the arguments the controller passes, in its order, and
  each returning a result table (or none) and an optional figure, or raising.
\<close>

record 'fig hypothesis_tests =
  one_sample_ttest ::
    "cell list \<Rightarrow> pyfloat \<Rightarrow> string \<Rightarrow> string \<Rightarrow> int \<Rightarrow> bool \<Rightarrow> error + dataframe option \<times> 'fig option"
  two_sample_ttest ::
    "cell list \<Rightarrow> cell list \<Rightarrow> string \<Rightarrow> string \<Rightarrow> string \<Rightarrow> string \<Rightarrow> bool \<Rightarrow> string \<Rightarrow> int \<Rightarrow> bool
       \<Rightarrow> error + dataframe option \<times> 'fig option"
  variance_test ::
    "cell list \<Rightarrow> cell list \<Rightarrow> string \<Rightarrow> string \<Rightarrow> string \<Rightarrow> bool \<Rightarrow> int
       \<Rightarrow> error + dataframe option \<times> 'fig option"
  one_way_anova :: "dataframe \<Rightarrow> string \<Rightarrow> string \<Rightarrow> error + dataframe option \<times> 'fig option"

text \<open>
  What a call can touch: the dataframe object it is given, and the record of the test
  routines it has invoked, in order.
\<close>

datatype routine = OneSampleTTest | TwoSampleTTest | VarianceTest | OneWayAnova

record world =
  frame :: "dataframe option"
  invoked :: "routine list"

definition round_table :: "dataframe option \<Rightarrow> int \<Rightarrow> dataframe option" where
  "round_table table decimals =
     (case table of None \<Rightarrow> None | Some t \<Rightarrow> Some (round_df decimals t))"

definition ensure_numeric_series :: "dataframe option \<Rightarrow> string \<Rightarrow> error + cell list" where
  "ensure_numeric_series df column =
     (case df of
        None \<Rightarrow> Inl NoDatasetLoaded
      | Some d \<Rightarrow>
          if column \<notin> set (colnames d) then Inl (ColumnNotFound column)
          else
            (let series = dropna_series (getcol d column) in
             if series = [] then Inl NoValidData else Inr (to_numpy series)))"

text \<open>
  \<open>pd.Series(values).astype(dtype)\<close> is pandas' cast of the selected values to the dtype of
  the column; it is the parameter \<open>astype\<close>, which may raise. \<open>isin\<close> keeps the rows whose
  cell is one of the cast values.
\<close>

definition materialize_group ::
  "(dtype \<Rightarrow> cell list \<Rightarrow> error + cell list) \<Rightarrow> dataframe \<Rightarrow> string \<Rightarrow> string option
     \<Rightarrow> cell list option \<Rightarrow> error + cell list" where
  "materialize_group astype df numeric_col cat_col cat_vals =
     (case cat_col of
        None \<Rightarrow> Inl NoCategoricalColumn
      | Some c \<Rightarrow>
          if c \<notin> set (colnames df) then Inl (CategoricalColumnNotFound c)
          else
            (let values = (case cat_vals of None \<Rightarrow> [] | Some vs \<Rightarrow> vs) in
             if values = [] then Inl (NoCategoriesSelected c)
             else
               bindE (astype (dtype_of df c) values)
                 (\<lambda>cat_series.
                    if numeric_col \<notin> set (colnames df) then Inl (KeyError numeric_col)
                    else
                      (let series = dropna_series
                             (getcol (filter_rows (\<lambda>r. cell_of df c r \<in> set cat_series) df) numeric_col)
                       in
                       if series = [] then Inl GroupsEmptyAfterFiltering
                       else Inr (to_numpy series)))))"

text \<open>A routine is invoked: it is recorded, and its table is rounded for display.\<close>

definition invoke ::
  "world \<Rightarrow> routine \<Rightarrow> error + dataframe option \<times> 'fig option \<Rightarrow> int
     \<Rightarrow> world \<times> (error + dataframe option \<times> 'fig option)" where
  "invoke w r result display_precision =
     (w \<lparr> invoked := invoked w @ [r] \<rparr>,
      bindE result (\<lambda>(table, fig). Inr (round_table table display_precision, fig)))"

definition run_hypothesis_testing ::
  "'fig hypothesis_tests \<Rightarrow> (dtype \<Rightarrow> cell list \<Rightarrow> error + cell list) \<Rightarrow> world \<Rightarrow> int \<Rightarrow> string
     \<Rightarrow> string \<Rightarrow> string \<Rightarrow> string \<Rightarrow> bool \<Rightarrow> int \<Rightarrow> string option \<Rightarrow> cell list option \<Rightarrow> string
     \<Rightarrow> string option \<Rightarrow> cell list option \<Rightarrow> string \<Rightarrow> string option \<Rightarrow> cell list option
     \<Rightarrow> string \<Rightarrow> bool \<Rightarrow> string
     \<Rightarrow> world \<times> (error + dataframe option \<times> 'fig option)" where
  "run_hypothesis_testing core astype w display_precision numeric_col hypo_test mu0_text alternative
       include_graph bootstrap_samples cat_col1 cat_vals1 name_group1 cat_col2 cat_vals2 name_group2
       cat_col3 cat_vals3 plot_type correction test_type =
     (case frame w of
        None \<Rightarrow> (w, Inl NoDatasetLoaded)
      | Some df \<Rightarrow>
          (case ensure_numeric_series (Some df) numeric_col of
             Inl e \<Rightarrow> (w, Inl e)
           | Inr checked \<Rightarrow>
               if hypo_test = ''One sample Student's t-test'' then
                 (if strip mu0_text = [] then (w, Inl Mu0Required)
                  else
                    (case py_float mu0_text of
                       None \<Rightarrow> (w, Inl Mu0NotNumeric)
                     | Some mu0 \<Rightarrow>
                         invoke w OneSampleTTest
                           (one_sample_ttest core (to_numpy (dropna_series (getcol df numeric_col)))
                              mu0 alternative numeric_col bootstrap_samples include_graph)
                           display_precision))
               else if hypo_test = ''Two samples Student's t-test'' then
                 (case materialize_group astype df numeric_col cat_col1 cat_vals1 of
                    Inl e \<Rightarrow> (w, Inl e)
                  | Inr group1 \<Rightarrow>
                      (case materialize_group astype df numeric_col cat_col2 cat_vals2 of
                         Inl e \<Rightarrow> (w, Inl e)
                       | Inr group2 \<Rightarrow>
                           invoke w TwoSampleTTest
                             (two_sample_ttest core group1 group2 numeric_col
                                (if name_group1 = [] then ''Group 1'' else name_group1)
                                (if name_group2 = [] then ''Group 2'' else name_group2)
                                alternative correction plot_type bootstrap_samples include_graph)
                             display_precision))
               else if hypo_test = ''Equal variance between two groups'' then
                 (case materialize_group astype df numeric_col cat_col1 cat_vals1 of
                    Inl e \<Rightarrow> (w, Inl e)
                  | Inr group1 \<Rightarrow>
                      (case materialize_group astype df numeric_col cat_col2 cat_vals2 of
                         Inl e \<Rightarrow> (w, Inl e)
                       | Inr group2 \<Rightarrow>
                           invoke w VarianceTest
                             (variance_test core group1 group2
                                (if name_group1 = [] then ''Group 1'' else name_group1)
                                (if name_group2 = [] then ''Group 2'' else name_group2)
                                test_type include_graph bootstrap_samples)
                             display_precision))
               else if hypo_test = ''One-way ANOVA'' then
                 (case cat_col3 of
                    None \<Rightarrow> (w, Inl AnovaNoCategoricalColumn)
                  | Some c \<Rightarrow>
                      if c \<notin> set (colnames df) then (w, Inl (CategoricalColumnNotFound c))
                      else if cat_vals3 = None \<or> cat_vals3 = Some [] then (w, Inl AnovaNoCategories)
                      else
                        (case astype (dtype_of df c) (the cat_vals3) of
                           Inl e \<Rightarrow> (w, Inl e)
                         | Inr cat_series \<Rightarrow>
                             invoke w OneWayAnova
                               (one_way_anova core
                                  (dropna (select_cols
                                     (filter_rows (\<lambda>r. cell_of df c r \<in> set cat_series) df)
                                     [numeric_col, c]))
                                  numeric_col c)
                               display_precision))
               else (w, Inl (UnknownHypothesisTest hypo_test))))"

text \<open>The distinct labels of the grouping column: one per group of the data.\<close>

definition group_labels :: "dataframe \<Rightarrow> string \<Rightarrow> cell list" where
  "group_labels data_group cat_col = remdups (to_numpy (getcol data_group cat_col))"

text \<open>
  Modelled from the spec: \<open>one_way_anova\<close> of \<open>core/hypothesis_tests.py\<close>, which is not among
  these files. The spec says of it only that it "fails with \<open>InsufficientGroups\<close> if fewer
  than two distinct non-empty groups remain"; the computation of the test itself is the
  parameter \<open>f_test\<close>.
\<close>

definition one_way_anova_spec ::
  "(dataframe \<Rightarrow> string \<Rightarrow> string \<Rightarrow> error + dataframe option \<times> 'fig option)
     \<Rightarrow> dataframe \<Rightarrow> string \<Rightarrow> string \<Rightarrow> error + dataframe option \<times> 'fig option" where
  "one_way_anova_spec f_test data_group numeric_col cat_col =
     (if length (group_labels data_group cat_col) < 2 then Inl InsufficientGroups
      else f_test data_group numeric_col cat_col)"

section \<open>The descriptive-statistics controller: \<open>controllers/estimation/descriptive_controller.py\<close>\<close>





section \<open>The rounding check: \<open>tests/test_no_tabular_rounding_in_core.py\<close>\<close>

text \<open>The regular expressions' \<open>\w\<close> on ASCII text; \<open>\s\<close> is \<open>is_ws\<close>.\<close>

definition is_word_char :: "char \<Rightarrow> bool" where
  "is_word_char c =
     (let n = (of_char c :: nat) in
      (48 \<le> n \<and> n \<le> 57) \<or> (65 \<le> n \<and> n \<le> 90) \<or> n = 95 \<or> (97 \<le> n \<and> n \<le> 122))"

text \<open>
  A literal followed by \<open>\s*\(\<close> at the start of the text: the text matched. With
  \<open>boundary\<close> the match must start at a word boundary (\<open>\b\<close>), which before a letter means
  that the character in front, if any, is not a word character.
\<close>

definition call_at :: "bool \<Rightarrow> string \<Rightarrow> char option \<Rightarrow> string \<Rightarrow> string option" where
  "call_at boundary lit prev s =
     (if boundary \<and> (case prev of None \<Rightarrow> False | Some p \<Rightarrow> is_word_char p) then None
      else if take (length lit) s \<noteq> lit then None
      else
        (let rest = drop (length lit) s; ws = takeWhile is_ws rest in
         (case dropWhile is_ws rest of
            [] \<Rightarrow> None
          | c # cs \<Rightarrow> if c = CHR ''('' then Some (lit @ ws @ ''('') else None)))"

text \<open>
  \<open>re.finditer\<close> for such a pattern: every position is tried in turn, with the line it is
  on (matches of one of these patterns cannot overlap, so none is skipped).
\<close>

fun finditer :: "(char option \<Rightarrow> string \<Rightarrow> string option) \<Rightarrow> char option \<Rightarrow> nat \<Rightarrow> string
    \<Rightarrow> (nat \<times> string) list" where
  "finditer m prev line [] = []"
| "finditer m prev line (c # cs) =
     (case m prev (c # cs) of Some matched \<Rightarrow> [(line, matched)] | None \<Rightarrow> [])
     @ finditer m (Some c) (if c = CHR 0x0A then line + 1 else line) cs"

text \<open>\<open>FORBIDDEN_PATTERNS\<close>: \<open>\bround\s*\(\<close>, \<open>\bnp\.round\s*\(\<close> and \<open>\.round\s*\(\<close>.\<close>

definition FORBIDDEN_PATTERNS :: "(char option \<Rightarrow> string \<Rightarrow> string option) list" where
  "FORBIDDEN_PATTERNS = [call_at True ''round'', call_at True ''np.round'', call_at False ''.round'']"

text \<open>
  The files the test walks over are given as the paths under \<open>core/\<close> (their components)
  with their contents. A violation is the path, the line and the text matched.
\<close>

definition is_py :: "string \<Rightarrow> bool" where
  "is_py name = (take 3 (rev name) = rev ''.py'')"

definition collect_violations :: "(string list \<times> string) list \<Rightarrow> (string list \<times> nat \<times> string) list" where
  "collect_violations files =
     concat (map (\<lambda>(path, content).
        if path = [] \<or> \<not> is_py (last path) then []
        else if last path = ''hypothesis_tests.py'' then []
        else concat (map (\<lambda>pattern.
               map (\<lambda>(line, matched). (path, line, matched)) (finditer pattern None 1 content))
               FORBIDDEN_PATTERNS)) files)"

text \<open>
  The test function: it collects the violations and ends there; nothing is asserted, so
  the test run never fails.
\<close>

datatype outcome = Passed | Failed

definition test_no_tabular_rounding_in_core :: "(string list \<times> string) list \<Rightarrow> outcome" where
  "test_no_tabular_rounding_in_core files = (let violations = collect_violations files in Passed)"

section \<open>Concrete inputs\<close>

text \<open>A table with one numeric column and two rows, and a table without rows.\<close>

definition small_df :: dataframe where
  "small_df = \<lparr> columns = [(''x'', Numeric)], rows = [(0, [Num (Fin 1)]), (1, [Num (Fin 2)])] \<rparr>"

definition no_rows_df :: dataframe where
  "no_rows_df = \<lparr> columns = [(''x'', Numeric)], rows = [] \<rparr>"

text \<open>A table with three numeric columns; the third row misses its \<open>y\<close>.\<close>

definition xy_df :: dataframe where
  "xy_df = \<lparr> columns = [(''x'', Numeric), (''y'', Numeric), (''z'', Numeric)],
             rows = [(0, [Num (Fin 3), Num (Fin 7), Num (Fin 1)]),
                     (1, [Num (Fin 1), Num (Fin 3), Num (Fin 0)]),
                     (2, [Num (Fin 2), Num NaN, Num (Fin 1)]),
                     (3, [Num (Fin 2), Num (Fin 5), Num (Fin 4)])] \<rparr>"

text \<open>
  A stand-in for statsmodels to run the model on concrete inputs: every fit succeeds, the
  summary has an empty coefficient table and the prediction table is the design it is given.
\<close>

definition sm_stub :: "unit statsmodels" where
  "sm_stub =
     \<lparr> smf_ols_fit = (\<lambda>data formula. Inr ()),
       sm_OLS_fit = (\<lambda>y X. Inr ()),
       sm_add_constant = (\<lambda>X. X),
       summary2 = (\<lambda>model alpha. Inr (''summary'', \<lparr> columns = [], rows = [] \<rparr>)),
       get_prediction = (\<lambda>model X alpha. Inr (case X of Some t \<Rightarrow> t | None \<Rightarrow> \<lparr> columns = [], rows = [] \<rparr>)) \<rparr>"

text \<open>
  A table with a numeric column and a grouping column; one row misses its value and one
  its group.
\<close>

definition groups_df :: dataframe where
  "groups_df =
     \<lparr> columns = [(''value'', Numeric), (''g'', Object)],
       rows = [(0, [Num (Fin 1), Str ''a'']),
               (1, [Num (Fin 2), Str ''a'']),
               (2, [Num NaN, Str ''b'']),
               (3, [Num (Fin 4), Str ''b'']),
               (4, [Num (Fin 5), Num NaN]),
               (5, [Num (Fin 6), Str ''c''])] \<rparr>"

definition start_world :: world where
  "start_world = \<lparr> frame = Some groups_df, invoked = [] \<rparr>"

text \<open>
  Stand-ins for the test routines and for the cast: every routine returns a one-cell table
  holding a third and no figure, and the cast keeps the values as they are.
\<close>

definition third_table :: dataframe where
  "third_table = \<lparr> columns = [(''statistic'', Numeric)], rows = [(0, [Num (Fin (1 / 3))])] \<rparr>"

definition tests_stub :: "unit hypothesis_tests" where
  "tests_stub =
     \<lparr> one_sample_ttest = (\<lambda>sample mu0 alternative numeric_col bootstrap_samples include_graph.
          Inr (Some third_table, None)),
       two_sample_ttest = (\<lambda>group1 group2 numeric_col name1 name2 alternative correction plot_type
          bootstrap_samples include_graph. Inr (Some third_table, None)),
       variance_test = (\<lambda>group1 group2 name1 name2 test_type include_graph bootstrap_samples.
          Inr (Some third_table, None)),
       one_way_anova = one_way_anova_spec (\<lambda>data_group numeric_col cat_col.
          Inr (Some third_table, None)) \<rparr>"

definition astype_id :: "dtype \<Rightarrow> cell list \<Rightarrow> error + cell list" where
  "astype_id t values = Inr values"



section \<open>Properties of the regression controller\<close>


text \<open>
  Claim C10. With a full dataset given, the working data is the filtered dataset when that
  is not empty; when the filtered dataset is missing or empty the full dataset is used
  without an error; and the selection fails only when the full dataset is missing, or is
  empty with no usable filtered dataset.
\<close>

theorem select_working_dataframe_fallback:
  "(\<not> df_empty f \<longrightarrow> select_working_dataframe (Some d) (Some f) = Inr f)
   \<and> (\<not> df_empty d \<and> (filtered_df = None \<or> df_empty (the filtered_df))
        \<longrightarrow> select_working_dataframe (Some d) filtered_df = Inr d)
   \<and> (select_working_dataframe df filtered_df = Inl e
        \<longrightarrow> (df = None \<and> e = NoDatasetLoaded)
            \<or> (df \<noteq> None \<and> df_empty (the df) \<and> e = DatasetEmpty
                \<and> (filtered_df = None \<or> df_empty (the filtered_df))))"
  by (auto simp: select_working_dataframe_def split: option.splits if_splits)

theorem select_working_dataframe_fallback_witness:
  "select_working_dataframe (Some no_rows_df) (Some small_df) = Inr small_df
   \<and> select_working_dataframe (Some small_df) (Some no_rows_df) = Inr small_df
   \<and> select_working_dataframe (Some small_df) None = Inr small_df
   \<and> select_working_dataframe None (Some small_df) = Inl NoDatasetLoaded
   \<and> select_working_dataframe (Some no_rows_df) None = Inl DatasetEmpty"
proof -
  have ne: "\<not> df_empty small_df" by (simp add: df_empty_def small_df_def)
  have em: "df_empty no_rows_df" by (simp add: df_empty_def no_rows_df_def)
  have a: "select_working_dataframe (Some no_rows_df) (Some small_df) = Inr small_df"
    using select_working_dataframe_fallback [of small_df no_rows_df] ne by simp
  have b: "select_working_dataframe (Some small_df) (Some no_rows_df) = Inr small_df"
    using select_working_dataframe_fallback [of _ small_df "Some no_rows_df"] ne em by simp
  have c: "select_working_dataframe (Some small_df) None = Inr small_df"
    using select_working_dataframe_fallback [of _ small_df None] ne by simp
  have d: "select_working_dataframe None (Some small_df) = Inl NoDatasetLoaded"
    by (simp add: select_working_dataframe_def)
  have e: "select_working_dataframe (Some no_rows_df) None = Inl DatasetEmpty"
    by (simp add: select_working_dataframe_def em)
  have "NoDatasetLoaded = NoDatasetLoaded \<or> df_empty no_rows_df"
    using select_working_dataframe_fallback [of _ _ None "Some small_df" NoDatasetLoaded] d by simp
  then show ?thesis using a b c d e by simp
qed



section \<open>Properties of the regression core\<close>

lemma plot_formula_ignores_intercept:
  "plot_simple_regression sm data x y intercept True formula_latex model alpha show_ci show_pi
      fit_to_obs x_vector
   = plot_simple_regression sm data x y intercept' True formula_latex model alpha show_ci show_pi
      fit_to_obs x_vector"
  by (simp add: plot_simple_regression_def)

lemma core_formula_ignores_intercept:
  "run_linear_regression_core sm df True formula_text formula_latex dv ivs alpha intercept cg gt
      show_ci show_pi fit_to_obs x_vector
   = run_linear_regression_core sm df True formula_text formula_latex dv ivs alpha intercept' cg gt
      show_ci show_pi fit_to_obs x_vector"
  unfolding run_linear_regression_core_def
  by (auto simp: plot_formula_ignores_intercept [of sm _ _ _ intercept _ _ _ _ _ _ _ intercept']
        bindE_def Let_def split: option.splits sum.splits prod.splits)

lemma controller_formula_ignores_intercept:
  "run_linear_regression sm prec df fdf True formula_text formula_latex dv ivs alpha_input intercept
      cg gt show_ci show_pi fit_to_obs x_range_text
   = run_linear_regression sm prec df fdf True formula_text formula_latex dv ivs alpha_input
      intercept' cg gt show_ci show_pi fit_to_obs x_range_text"
  unfolding run_linear_regression_def
  by (simp add: core_formula_ignores_intercept [of sm _ _ _ _ _ _ intercept _ _ _ _ _ _ intercept']
        cong: if_cong)



text \<open>
  Claim C8. In formula mode the explicit intercept flag is ignored: the regression core, the
  prediction design of the simple regression plot and the controller return the same
  result for either value of the flag, whatever the dataset, the formula and statsmodels do.
\<close>

theorem formula_mode_ignores_intercept:
  "run_linear_regression_core sm df True formula_text formula_latex dv ivs alpha intercept cg gt
      show_ci show_pi fit_to_obs x_vector
   = run_linear_regression_core sm df True formula_text formula_latex dv ivs alpha intercept' cg gt
      show_ci show_pi fit_to_obs x_vector
   \<and> plot_simple_regression sm data x y intercept True formula_latex model alpha show_ci show_pi
      fit_to_obs x_vector
   = plot_simple_regression sm data x y intercept' True formula_latex model alpha show_ci show_pi
      fit_to_obs x_vector
   \<and> run_linear_regression sm prec df' fdf True formula_text formula_latex dependent_var ivs
      alpha_input intercept cg gt show_ci show_pi fit_to_obs x_range_text
   = run_linear_regression sm prec df' fdf True formula_text formula_latex dependent_var ivs
      alpha_input intercept' cg gt show_ci show_pi fit_to_obs x_range_text"
  using core_formula_ignores_intercept [of sm df formula_text formula_latex dv ivs alpha intercept
      cg gt show_ci show_pi fit_to_obs x_vector intercept']
    plot_formula_ignores_intercept [of sm data x y intercept formula_latex model alpha show_ci
      show_pi fit_to_obs x_vector intercept']
    controller_formula_ignores_intercept [of sm prec df' fdf formula_text formula_latex
      dependent_var ivs alpha_input intercept cg gt show_ci show_pi fit_to_obs x_range_text
      intercept']
  by simp

theorem formula_mode_ignores_intercept_witness:
  "run_linear_regression_core sm_stub (Some xy_df) True ''y ~ x'' [] ''y'' [''x''] (Fin (1 / 20))
      True True ''Simple Regression'' True True True None
   = run_linear_regression_core sm_stub (Some xy_df) True ''y ~ x'' [] ''y'' [''x''] (Fin (1 / 20))
      False True ''Simple Regression'' True True True None
   \<and> run_linear_regression_core sm_stub (Some xy_df) True ''y ~ x'' [] ''y'' [''x''] (Fin (1 / 20))
      True True ''Simple Regression'' True True True None
   = Inr (''summary'', \<lparr>columns = [], rows = []\<rparr>,
       Some (SimpleRegressionFigure [Num (Fin 1), Num (Fin 2), Num (Fin 3)]
               \<lparr>columns = [(''x'', Numeric)],
                  rows = [(0, [Num (Fin 1)]), (1, [Num (Fin 2)]), (2, [Num (Fin 3)])]\<rparr>
               True True [] ''Linear Regression: y ~ x''))"
proof -
  have a: "run_linear_regression_core sm_stub (Some xy_df) True ''y ~ x'' [] ''y'' [''x'']
      (Fin (1 / 20)) True True ''Simple Regression'' True True True None
   = run_linear_regression_core sm_stub (Some xy_df) True ''y ~ x'' [] ''y'' [''x''] (Fin (1 / 20))
      False True ''Simple Regression'' True True True None"
    by (rule formula_mode_ignores_intercept [THEN conjunct1])
  have b: "run_linear_regression_core sm_stub (Some xy_df) True ''y ~ x'' [] ''y'' [''x'']
      (Fin (1 / 20)) True True ''Simple Regression'' True True True None
   = Inr (''summary'', \<lparr>columns = [], rows = []\<rparr>,
       Some (SimpleRegressionFigure [Num (Fin 1), Num (Fin 2), Num (Fin 3)]
               \<lparr>columns = [(''x'', Numeric)],
                  rows = [(0, [Num (Fin 1)]), (1, [Num (Fin 2)]), (2, [Num (Fin 3)])]\<rparr>
               True True [] ''Linear Regression: y ~ x''))"
    by code_simp
  show ?thesis using a b by simp
qed



section \<open>Properties of the hypothesis-test controller\<close>


lemma rht_bad_column:
  "frame w = Some df \<Longrightarrow> ensure_numeric_series (Some df) num = Inl e \<Longrightarrow>
   run_hypothesis_testing core astype w prec num hypo mu0_text alt ig bs c1 v1 n1 c2 v2 n2 c3 v3 pt corr tt
   = (w, Inl e)"
  by (simp add: run_hypothesis_testing_def)


lemma rht_two_sample:
  "frame w = Some df \<Longrightarrow> ensure_numeric_series (Some df) num = Inr checked \<Longrightarrow>
   run_hypothesis_testing core astype w prec num ''Two samples Student's t-test'' mu0_text alt ig bs
     c1 v1 n1 c2 v2 n2 c3 v3 pt corr tt
   = (case materialize_group astype df num c1 v1 of
        Inl e \<Rightarrow> (w, Inl e)
      | Inr group1 \<Rightarrow>
          (case materialize_group astype df num c2 v2 of
             Inl e \<Rightarrow> (w, Inl e)
           | Inr group2 \<Rightarrow>
               invoke w TwoSampleTTest
                 (two_sample_ttest core group1 group2 num
                    (if n1 = [] then ''Group 1'' else n1) (if n2 = [] then ''Group 2'' else n2)
                    alt corr pt bs ig)
                 prec))"
  by (simp add: run_hypothesis_testing_def)

lemma rht_variance:
  "frame w = Some df \<Longrightarrow> ensure_numeric_series (Some df) num = Inr checked \<Longrightarrow>
   run_hypothesis_testing core astype w prec num ''Equal variance between two groups'' mu0_text alt ig bs
     c1 v1 n1 c2 v2 n2 c3 v3 pt corr tt
   = (case materialize_group astype df num c1 v1 of
        Inl e \<Rightarrow> (w, Inl e)
      | Inr group1 \<Rightarrow>
          (case materialize_group astype df num c2 v2 of
             Inl e \<Rightarrow> (w, Inl e)
           | Inr group2 \<Rightarrow>
               invoke w VarianceTest
                 (variance_test core group1 group2
                    (if n1 = [] then ''Group 1'' else n1) (if n2 = [] then ''Group 2'' else n2)
                    tt ig bs)
                 prec))"
  by (simp add: run_hypothesis_testing_def)

lemma rht_anova:
  "frame w = Some df \<Longrightarrow> ensure_numeric_series (Some df) num = Inr checked \<Longrightarrow>
   run_hypothesis_testing core astype w prec num ''One-way ANOVA'' mu0_text alt ig bs
     c1 v1 n1 c2 v2 n2 c3 v3 pt corr tt
   = (case c3 of
        None \<Rightarrow> (w, Inl AnovaNoCategoricalColumn)
      | Some c \<Rightarrow>
          if c \<notin> set (colnames df) then (w, Inl (CategoricalColumnNotFound c))
          else if v3 = None \<or> v3 = Some [] then (w, Inl AnovaNoCategories)
          else
            (case astype (dtype_of df c) (the v3) of
               Inl e \<Rightarrow> (w, Inl e)
             | Inr cat_series \<Rightarrow>
                 invoke w OneWayAnova
                   (one_way_anova core
                      (dropna (select_cols (filter_rows (\<lambda>r. cell_of df c r \<in> set cat_series) df)
                         [num, c]))
                      num c)
                   prec))"
  by (simp add: run_hypothesis_testing_def)











lemma cell_of_filter_rows: "cell_of (filter_rows p df) c r = cell_of df c r"
  by (simp add: cell_of_def filter_rows_def colnames_def)

lemma materialize_group_values:
  assumes "c \<in> set (colnames df)" "vs \<noteq> []" "astype (dtype_of df c) vs = Inr cast"
    "numeric_col \<in> set (colnames df)"
  shows "materialize_group astype df numeric_col (Some c) (Some vs)
         = (if map (\<lambda>(i, r). cell_of df numeric_col r)
                 (filter (\<lambda>(i, r). cell_of df c r \<in> set cast \<and> \<not> isna (cell_of df numeric_col r))
                    (rows df)) = []
            then Inl GroupsEmptyAfterFiltering
            else Inr (map (\<lambda>(i, r). cell_of df numeric_col r)
                   (filter (\<lambda>(i, r). cell_of df c r \<in> set cast \<and> \<not> isna (cell_of df numeric_col r))
                      (rows df))))"
proof -
  have s: "dropna_series (getcol (filter_rows (\<lambda>r. cell_of df c r \<in> set cast) df) numeric_col)
           = map (\<lambda>(i, r). (i, cell_of df numeric_col r))
               (filter (\<lambda>(i, r). cell_of df c r \<in> set cast \<and> \<not> isna (cell_of df numeric_col r))
                  (rows df))"
    unfolding dropna_series_def getcol_def cell_of_filter_rows
    by (induction "rows df" arbitrary: df) (auto simp: filter_rows_def filter_map comp_def split_def)
  show ?thesis
    using assms
    by (simp add: materialize_group_def bindE_def Let_def s to_numpy_def comp_def split_def)
qed

lemma materialize_group_no_categories:
  assumes "cat_vals = None \<or> cat_vals = Some []"
  shows "\<exists>e. materialize_group astype df numeric_col cat_col cat_vals = Inl e"
  using assms by (auto simp: materialize_group_def split: option.splits)

text \<open>
  Claim C7. For the two-sample t-test and the variance-equality test each group is the
  numeric values, missing ones dropped, of the rows whose categorical cell is one of the
  chosen values (cast to the dtype of the column); the two routines receive exactly these
  two groups. Materializing a group fails when no categories are selected and when the
  group is empty after filtering, and a group that fails makes the call fail before any
  routine is invoked.
\<close>

theorem groups_materialized_by_category:
  "(c \<in> set (colnames df) \<and> vs \<noteq> [] \<and> astype (dtype_of df c) vs = Inr cast
      \<and> numeric_col \<in> set (colnames df)
      \<and> g = map (\<lambda>(i, r). cell_of df numeric_col r)
              (filter (\<lambda>(i, r). cell_of df c r \<in> set cast \<and> \<not> isna (cell_of df numeric_col r))
                 (rows df))
      \<longrightarrow> materialize_group astype df numeric_col (Some c) (Some vs)
            = (if g = [] then Inl GroupsEmptyAfterFiltering else Inr g))
   \<and> (cat_vals = None \<or> cat_vals = Some []
      \<longrightarrow> (\<exists>e. materialize_group astype df numeric_col cat_col cat_vals = Inl e)
          \<and> (c \<in> set (colnames df)
                \<longrightarrow> materialize_group astype df numeric_col (Some c) cat_vals
                    = Inl (NoCategoriesSelected c)))
   \<and> (frame w = Some df
        \<and> (hypo_test = ''Two samples Student's t-test''
             \<or> hypo_test = ''Equal variance between two groups'')
        \<and> (materialize_group astype df numeric_col cat_col_a cat_vals_a = Inl err_a
             \<or> materialize_group astype df numeric_col cat_col_b cat_vals_b = Inl err_b)
      \<longrightarrow> (\<exists>e. run_hypothesis_testing core astype w display_precision numeric_col hypo_test mu0_text
                 alternative include_graph bootstrap_samples cat_col_a cat_vals_a name_a cat_col_b
                 cat_vals_b name_b cat_col_c cat_vals_c plot_type correction test_type
               = (w, Inl e)))
   \<and> (frame w = Some df \<and> ensure_numeric_series (Some df) numeric_col = Inr checked
        \<and> materialize_group astype df numeric_col cat_col_a cat_vals_a = Inr group_a
        \<and> materialize_group astype df numeric_col cat_col_b cat_vals_b = Inr group_b
      \<longrightarrow> run_hypothesis_testing core astype w display_precision numeric_col
              ''Two samples Student's t-test'' mu0_text
              alternative include_graph bootstrap_samples cat_col_a cat_vals_a name_a cat_col_b
              cat_vals_b name_b cat_col_c cat_vals_c plot_type correction test_type
            = invoke w TwoSampleTTest
                (two_sample_ttest core group_a group_b numeric_col
                   (if name_a = [] then ''Group 1'' else name_a)
                   (if name_b = [] then ''Group 2'' else name_b)
                   alternative correction plot_type bootstrap_samples include_graph)
                display_precision
          \<and> run_hypothesis_testing core astype w display_precision numeric_col
              ''Equal variance between two groups'' mu0_text
              alternative include_graph bootstrap_samples cat_col_a cat_vals_a name_a cat_col_b
              cat_vals_b name_b cat_col_c cat_vals_c plot_type correction test_type
            = invoke w VarianceTest
                (variance_test core group_a group_b
                   (if name_a = [] then ''Group 1'' else name_a)
                   (if name_b = [] then ''Group 2'' else name_b)
                   test_type include_graph bootstrap_samples)
                display_precision)"
proof (intro conjI impI)
  assume "c \<in> set (colnames df) \<and> vs \<noteq> [] \<and> astype (dtype_of df c) vs = Inr cast
      \<and> numeric_col \<in> set (colnames df)
      \<and> g = map (\<lambda>(i, r). cell_of df numeric_col r)
              (filter (\<lambda>(i, r). cell_of df c r \<in> set cast \<and> \<not> isna (cell_of df numeric_col r))
                 (rows df))"
  then show "materialize_group astype df numeric_col (Some c) (Some vs)
            = (if g = [] then Inl GroupsEmptyAfterFiltering else Inr g)"
    using materialize_group_values [of c df vs astype cast numeric_col] by simp
next
  assume "cat_vals = None \<or> cat_vals = Some []"
  then show "\<exists>e. materialize_group astype df numeric_col cat_col cat_vals = Inl e"
    by (rule materialize_group_no_categories)
next
  assume "cat_vals = None \<or> cat_vals = Some []" "c \<in> set (colnames df)"
  then show "materialize_group astype df numeric_col (Some c) cat_vals = Inl (NoCategoriesSelected c)"
    by (auto simp: materialize_group_def)
next
  assume h: "frame w = Some df
        \<and> (hypo_test = ''Two samples Student's t-test''
             \<or> hypo_test = ''Equal variance between two groups'')
        \<and> (materialize_group astype df numeric_col cat_col_a cat_vals_a = Inl err_a
             \<or> materialize_group astype df numeric_col cat_col_b cat_vals_b = Inl err_b)"
  show "\<exists>e. run_hypothesis_testing core astype w display_precision numeric_col hypo_test mu0_text
                 alternative include_graph bootstrap_samples cat_col_a cat_vals_a name_a cat_col_b
                 cat_vals_b name_b cat_col_c cat_vals_c plot_type correction test_type
               = (w, Inl e)"
  proof (cases "ensure_numeric_series (Some df) numeric_col")
    case (Inl e)
    then show ?thesis using h by (simp add: rht_bad_column)
  next
    case (Inr checked)
    from h have fr: "frame w = Some df" by simp
    from h consider (two) "hypo_test = ''Two samples Student's t-test''"
      | (var) "hypo_test = ''Equal variance between two groups''" by blast
    then show ?thesis
    proof cases
      case two
      show ?thesis
        unfolding two rht_two_sample [OF fr Inr]
        using h by (cases "materialize_group astype df numeric_col cat_col_a cat_vals_a") auto
    next
      case var
      show ?thesis
        unfolding var rht_variance [OF fr Inr]
        using h by (cases "materialize_group astype df numeric_col cat_col_a cat_vals_a") auto
    qed
  qed
next
  assume h: "frame w = Some df \<and> ensure_numeric_series (Some df) numeric_col = Inr checked
        \<and> materialize_group astype df numeric_col cat_col_a cat_vals_a = Inr group_a
        \<and> materialize_group astype df numeric_col cat_col_b cat_vals_b = Inr group_b"
  then have fr: "frame w = Some df" and en: "ensure_numeric_series (Some df) numeric_col = Inr checked"
    by simp_all
  show "run_hypothesis_testing core astype w display_precision numeric_col
              ''Two samples Student's t-test'' mu0_text
              alternative include_graph bootstrap_samples cat_col_a cat_vals_a name_a cat_col_b
              cat_vals_b name_b cat_col_c cat_vals_c plot_type correction test_type
            = invoke w TwoSampleTTest
                (two_sample_ttest core group_a group_b numeric_col
                   (if name_a = [] then ''Group 1'' else name_a)
                   (if name_b = [] then ''Group 2'' else name_b)
                   alternative correction plot_type bootstrap_samples include_graph)
                display_precision"
    unfolding rht_two_sample [OF fr en] using h by simp
  show "run_hypothesis_testing core astype w display_precision numeric_col
              ''Equal variance between two groups'' mu0_text
              alternative include_graph bootstrap_samples cat_col_a cat_vals_a name_a cat_col_b
              cat_vals_b name_b cat_col_c cat_vals_c plot_type correction test_type
            = invoke w VarianceTest
                (variance_test core group_a group_b
                   (if name_a = [] then ''Group 1'' else name_a)
                   (if name_b = [] then ''Group 2'' else name_b)
                   test_type include_graph bootstrap_samples)
                display_precision"
    unfolding rht_variance [OF fr en] using h by simp
qed

theorem groups_materialized_by_category_witness:
  "materialize_group astype_id groups_df ''value'' (Some ''g'') (Some [Str ''b'', Str ''c''])
     = Inr [Num (Fin 4), Num (Fin 6)]
   \<and> materialize_group astype_id groups_df ''value'' (Some ''g'') (Some [Str ''z''])
     = Inl GroupsEmptyAfterFiltering
   \<and> materialize_group astype_id groups_df ''value'' (Some ''g'') (Some [])
     = Inl (NoCategoriesSelected ''g'')
   \<and> (\<exists>e. run_hypothesis_testing tests_stub astype_id start_world 4 ''value''
          ''Equal variance between two groups'' [] ''two-sided'' False 100
          (Some ''g'') (Some [Str ''a'']) [] (Some ''g'') (Some [Str ''z'']) [] None None [] False
          ''Levene'' = (start_world, Inl e))
   \<and> run_hypothesis_testing tests_stub astype_id start_world 4 ''value''
          ''Two samples Student's t-test'' [] ''two-sided'' False 100
          (Some ''g'') (Some [Str ''a'']) [] (Some ''g'') (Some [Str ''b'', Str ''c'']) [] None None []
          False []
     = invoke start_world TwoSampleTTest
         (two_sample_ttest tests_stub [Num (Fin 1), Num (Fin 2)] [Num (Fin 4), Num (Fin 6)] ''value''
            ''Group 1'' ''Group 2'' ''two-sided'' False [] 100 False) 4"
proof -
  have cols: "''g'' \<in> set (colnames groups_df)" "''value'' \<in> set (colnames groups_df)"
    by (simp_all add: colnames_def groups_df_def)
  have g1: "map (\<lambda>(i, r). cell_of groups_df ''value'' r)
              (filter (\<lambda>(i, r). cell_of groups_df ''g'' r \<in> set [Str ''b'', Str ''c'']
                         \<and> \<not> isna (cell_of groups_df ''value'' r)) (rows groups_df))
            = [Num (Fin 4), Num (Fin 6)]"
    by code_simp
  have g0: "map (\<lambda>(i, r). cell_of groups_df ''value'' r)
              (filter (\<lambda>(i, r). cell_of groups_df ''g'' r \<in> set [Str ''z'']
                         \<and> \<not> isna (cell_of groups_df ''value'' r)) (rows groups_df))
            = []"
    by code_simp
  have a0: "materialize_group astype_id groups_df ''value'' (Some ''g'') (Some [Str ''b'', Str ''c''])
     = (if [Num (Fin 4), Num (Fin 6)] = [] then Inl GroupsEmptyAfterFiltering
        else Inr [Num (Fin 4), Num (Fin 6)])"
    by (rule groups_materialized_by_category [where cast = "[Str ''b'', Str ''c'']",
          THEN conjunct1, THEN mp])
       (intro conjI, rule cols, simp, simp add: astype_id_def, rule cols, rule g1 [symmetric])
  have a: "materialize_group astype_id groups_df ''value'' (Some ''g'') (Some [Str ''b'', Str ''c''])
     = Inr [Num (Fin 4), Num (Fin 6)]"
    using a0 by simp
  have b0: "materialize_group astype_id groups_df ''value'' (Some ''g'') (Some [Str ''z''])
     = (if ([] :: cell list) = [] then Inl GroupsEmptyAfterFiltering else Inr [])"
    by (rule groups_materialized_by_category [where cast = "[Str ''z'']",
          THEN conjunct1, THEN mp])
       (intro conjI, rule cols, simp, simp add: astype_id_def, rule cols, rule g0 [symmetric])
  have b: "materialize_group astype_id groups_df ''value'' (Some ''g'') (Some [Str ''z''])
     = Inl GroupsEmptyAfterFiltering"
    using b0 by simp
  have c: "materialize_group astype_id groups_df ''value'' (Some ''g'') (Some [])
     = Inl (NoCategoriesSelected ''g'')"
    using groups_materialized_by_category [where c = "''g''" and df = groups_df
        and cat_vals = "Some []" and astype = astype_id and numeric_col = "''value''",
        THEN conjunct2, THEN conjunct1] cols
    by simp
  have fr: "frame start_world = Some groups_df"
    by (simp add: start_world_def)
  have d: "\<exists>e. run_hypothesis_testing tests_stub astype_id start_world 4 ''value''
          ''Equal variance between two groups'' [] ''two-sided'' False 100
          (Some ''g'') (Some [Str ''a'']) [] (Some ''g'') (Some [Str ''z'']) [] None None [] False
          ''Levene'' = (start_world, Inl e)"
    using groups_materialized_by_category [where w = start_world and df = groups_df
        and hypo_test = "''Equal variance between two groups''" and astype = astype_id
        and numeric_col = "''value''" and cat_col_b = "Some ''g''" and cat_vals_b = "Some [Str ''z'']"
        and err_b = GroupsEmptyAfterFiltering, THEN conjunct2, THEN conjunct2, THEN conjunct1]
      fr b
    by simp
  have ens: "ensure_numeric_series (Some groups_df) ''value''
             = Inr [Num (Fin 1), Num (Fin 2), Num (Fin 4), Num (Fin 5), Num (Fin 6)]"
    by code_simp
  have ga: "materialize_group astype_id groups_df ''value'' (Some ''g'') (Some [Str ''a''])
     = Inr [Num (Fin 1), Num (Fin 2)]"
    by code_simp
  have e: "run_hypothesis_testing tests_stub astype_id start_world 4 ''value''
          ''Two samples Student's t-test'' [] ''two-sided'' False 100
          (Some ''g'') (Some [Str ''a'']) [] (Some ''g'') (Some [Str ''b'', Str ''c'']) [] None None []
          False []
     = invoke start_world TwoSampleTTest
         (two_sample_ttest tests_stub [Num (Fin 1), Num (Fin 2)] [Num (Fin 4), Num (Fin 6)] ''value''
            ''Group 1'' ''Group 2'' ''two-sided'' False [] 100 False) 4"
    using groups_materialized_by_category [where w = start_world and df = groups_df
        and astype = astype_id and numeric_col = "''value''"
        and checked = "[Num (Fin 1), Num (Fin 2), Num (Fin 4), Num (Fin 5), Num (Fin 6)]"
        and cat_col_a = "Some ''g''" and cat_vals_a = "Some [Str ''a'']"
        and cat_col_b = "Some ''g''" and cat_vals_b = "Some [Str ''b'', Str ''c'']"
        and group_a = "[Num (Fin 1), Num (Fin 2)]" and group_b = "[Num (Fin 4), Num (Fin 6)]"
        and name_a = "[]" and name_b = "[]",
        THEN conjunct2, THEN conjunct2, THEN conjunct2, THEN mp, THEN conjunct1]
      fr ens ga a
    by simp
  show ?thesis using a b c d e by simp
qed

lemma anova_rows:
  "rows (dropna (select_cols (filter_rows (\<lambda>r. cell_of df c r \<in> set cast) df) [num, c]))
   = map (\<lambda>(i, r). (i, [cell_of df num r, cell_of df c r]))
       (filter (\<lambda>(i, r). cell_of df c r \<in> set cast \<and> \<not> isna (cell_of df num r)
                  \<and> \<not> isna (cell_of df c r))
          (rows df))"
  by (induction "rows df" arbitrary: df)
     (auto simp: dropna_def select_cols_def filter_rows_def cell_of_def colnames_def filter_map
        comp_def split_def)

text \<open>
  Claim C3. A one-way ANOVA call that passes the controller's checks hands the routine the
  rows whose category is among the selected values, restricted to the numeric and the
  categorical column, with every row that misses either cell dropped. With the routine as
  the spec describes it, the call fails with \<open>InsufficientGroups\<close> whenever fewer than two
  distinct groups are left in that data.
\<close>

theorem anova_drops_missing_and_needs_two_groups:
  assumes "frame w = Some df"
    and "ensure_numeric_series (Some df) numeric_col = Inr checked"
    and "c \<in> set (colnames df)"
    and "vs \<noteq> []"
    and "astype (dtype_of df c) vs = Inr cast"
    and "data_group = dropna (select_cols (filter_rows (\<lambda>r. cell_of df c r \<in> set cast) df)
                                [numeric_col, c])"
    and "R = run_hypothesis_testing core astype w display_precision numeric_col ''One-way ANOVA''
               mu0_text alternative include_graph bootstrap_samples cat_col_a cat_vals_a name_a
               cat_col_b cat_vals_b name_b (Some c) (Some vs) plot_type correction test_type"
  shows "R = invoke w OneWayAnova (one_way_anova core data_group numeric_col c) display_precision
    \<and> rows data_group
        = map (\<lambda>(i, r). (i, [cell_of df numeric_col r, cell_of df c r]))
            (filter (\<lambda>(i, r). cell_of df c r \<in> set cast \<and> \<not> isna (cell_of df numeric_col r)
                       \<and> \<not> isna (cell_of df c r))
               (rows df))
    \<and> columns data_group = [(numeric_col, dtype_of df numeric_col), (c, dtype_of df c)]
    \<and> (one_way_anova core = one_way_anova_spec f_test \<and> length (group_labels data_group c) < 2
          \<longrightarrow> snd R = Inl InsufficientGroups)"
proof -
  have r: "R = invoke w OneWayAnova (one_way_anova core data_group numeric_col c) display_precision"
    unfolding assms(7) rht_anova [OF assms(1) assms(2)] using assms(3,4,5,6) by simp
  have rows: "rows data_group
        = map (\<lambda>(i, r). (i, [cell_of df numeric_col r, cell_of df c r]))
            (filter (\<lambda>(i, r). cell_of df c r \<in> set cast \<and> \<not> isna (cell_of df numeric_col r)
                       \<and> \<not> isna (cell_of df c r))
               (rows df))"
    unfolding assms(6) by (rule anova_rows)
  have cols: "columns data_group = [(numeric_col, dtype_of df numeric_col), (c, dtype_of df c)]"
    unfolding assms(6) by (simp add: dropna_def select_cols_def filter_rows_def dtype_of_def)
  have few: "one_way_anova core = one_way_anova_spec f_test \<and> length (group_labels data_group c) < 2
          \<longrightarrow> snd R = Inl InsufficientGroups"
    unfolding r by (simp add: invoke_def one_way_anova_spec_def bindE_def)
  show ?thesis using r rows cols few by blast
qed

theorem anova_drops_missing_and_needs_two_groups_witness:
  "run_hypothesis_testing tests_stub astype_id start_world 4 ''value'' ''One-way ANOVA''
       [] ''two-sided'' False 100 None None [] None None [] (Some ''g'') (Some [Str ''a'', Str ''z''])
       [] False []
     = (\<lparr> frame = Some groups_df, invoked = [OneWayAnova] \<rparr>, Inl InsufficientGroups)
   \<and> rows (dropna (select_cols
              (filter_rows (\<lambda>r. cell_of groups_df ''g'' r \<in> set [Str ''a'', Str ''b'', Str ''c''])
                 groups_df) [''value'', ''g'']))
     = [(0, [Num (Fin 1), Str ''a'']), (1, [Num (Fin 2), Str ''a'']), (3, [Num (Fin 4), Str ''b'']),
        (5, [Num (Fin 6), Str ''c''])]
   \<and> snd (run_hypothesis_testing tests_stub astype_id start_world 4 ''value'' ''One-way ANOVA''
       [] ''two-sided'' False 100 None None [] None None [] (Some ''g'') (Some [Str ''a'', Str ''z''])
       [] False []) = Inl InsufficientGroups"
proof -
  have fr: "frame start_world = Some groups_df"
    by (simp add: start_world_def)
  have ens: "ensure_numeric_series (Some groups_df) ''value''
             = Inr [Num (Fin 1), Num (Fin 2), Num (Fin 4), Num (Fin 5), Num (Fin 6)]"
    by code_simp
  have col: "''g'' \<in> set (colnames groups_df)"
    by (simp add: colnames_def groups_df_def)
  have ne: "[Str ''a'', Str ''z''] \<noteq> []"
    by simp
  have cast: "astype_id (dtype_of groups_df ''g'') [Str ''a'', Str ''z''] = Inr [Str ''a'', Str ''z'']"
    by (simp add: astype_id_def)
  have sp: "one_way_anova tests_stub
              = one_way_anova_spec (\<lambda>data_group numeric_col cat_col. Inr (Some third_table, None))"
    by (simp add: tests_stub_def)
  have few: "length (group_labels (dropna (select_cols
               (filter_rows (\<lambda>r. cell_of groups_df ''g'' r \<in> set [Str ''a'', Str ''z'']) groups_df)
               [''value'', ''g''])) ''g'') < 2"
    by code_simp
  note t = anova_drops_missing_and_needs_two_groups [where astype = astype_id
      and core = tests_stub and w = start_world and df = groups_df and c = "''g''"
      and vs = "[Str ''a'', Str ''z'']" and cast = "[Str ''a'', Str ''z'']"
      and numeric_col = "''value''"
      and f_test = "\<lambda>data_group numeric_col cat_col. Inr (Some third_table, None)",
      OF fr ens col ne cast refl refl]
  have a: "snd (run_hypothesis_testing tests_stub astype_id start_world 4 ''value'' ''One-way ANOVA''
       [] ''two-sided'' False 100 None None [] None None [] (Some ''g'') (Some [Str ''a'', Str ''z''])
       [] False []) = Inl InsufficientGroups"
    by (rule t [THEN conjunct2, THEN conjunct2, THEN conjunct2, THEN mp]) (intro conjI, rule sp, rule few)
  have b: "run_hypothesis_testing tests_stub astype_id start_world 4 ''value'' ''One-way ANOVA''
       [] ''two-sided'' False 100 None None [] None None [] (Some ''g'') (Some [Str ''a'', Str ''z''])
       [] False []
     = (\<lparr> frame = Some groups_df, invoked = [OneWayAnova] \<rparr>, Inl InsufficientGroups)"
    by code_simp
  have c: "rows (dropna (select_cols
              (filter_rows (\<lambda>r. cell_of groups_df ''g'' r \<in> set [Str ''a'', Str ''b'', Str ''c''])
                 groups_df) [''value'', ''g'']))
     = [(0, [Num (Fin 1), Str ''a'']), (1, [Num (Fin 2), Str ''a'']), (3, [Num (Fin 4), Str ''b'']),
        (5, [Num (Fin 6), Str ''c''])]"
    by code_simp
  show ?thesis using a b c by simp
qed

section \<open>Properties of the descriptive-statistics controller\<close>






section \<open>Properties of the rounding check\<close>

lemma rounding_check_always_passes: "test_no_tabular_rounding_in_core files = Passed"
  by (simp add: test_no_tabular_rounding_in_core_def)

text \<open>
  Claim C1. The check is meant to fail when a file under \<open>core/\<close> calls a rounding function.
  On a core file that holds the call \<open>round(x, 2)\<close> the loop of the test does record the
  violation, and the test still passes: the list of violations is never asserted on.
\<close>

theorem rounding_check_passes_on_violation:
  "collect_violations [([''linear_regression.py''], ''y = round(x, 2)'')]
     = [([''linear_regression.py''], 1, ''round('')]
   \<and> test_no_tabular_rounding_in_core [([''linear_regression.py''], ''y = round(x, 2)'')] = Passed"
  by code_simp

section \<open>Properties of the prediction grid\<close>

lemma np_linspace_finite:
  assumes "lo < hi"
  shows "np_linspace (Fin lo) (Fin hi) 100 = map (\<lambda>i. Fin (lo + of_nat i * (hi - lo) / 99)) [0..<100]"
proof -
  have h: "(100::nat) = Suc 99" by simp
  have u: "[0..<100] = [0..<99] @ [99::nat]"
    unfolding h by (simp only: upt_Suc_append le0)
  have step: "(hi - lo) / 99 \<noteq> 0" using assms by simp
  have "np_linspace (Fin lo) (Fin hi) 100
        = butlast (map (\<lambda>i. Fin (of_nat i * ((hi - lo) / 99) + lo)) [0..<100]) @ [Fin hi]"
    using step by (simp add: np_linspace_def Let_def pf_sub_def comp_def del: upt.simps)
  also have "\<dots> = map (\<lambda>i. Fin (of_nat i * ((hi - lo) / 99) + lo)) [0..<99] @ [Fin hi]"
    unfolding u by (simp del: upt.simps)
  also have "\<dots> = map (\<lambda>i. Fin (lo + of_nat i * (hi - lo) / 99)) [0..<100]"
    unfolding u by (simp add: field_simps del: upt.simps)
  finally show ?thesis .
qed

text \<open>
  For a range of two finite numbers the parser does what the claim says: it raises unless
  the minimum is below the maximum, and otherwise gives 100 evenly spaced points from the
  minimum to the maximum.
\<close>

lemma parse_range_finite:
  assumes "strip s \<noteq> []" "split_on CHR '','' (strip s) = [a, b]"
    "py_float (strip a) = Some (Fin lo)" "py_float (strip b) = Some (Fin hi)"
  shows "parse_range s
         = (if hi \<le> lo then Inl RangeOrder
            else Inr (Some (map (\<lambda>i. Fin (lo + of_nat i * (hi - lo) / 99)) [0..<100])))"
proof (cases "lo < hi")
  case True
  then show ?thesis
    using assms by (simp add: parse_range_def Let_def np_linspace_finite del: upt.simps)
next
  case False
  then show ?thesis
    using assms by (simp add: parse_range_def Let_def del: upt.simps)
qed

lemma cell_of_same_columns:
  "columns d' = columns d \<Longrightarrow> cell_of d' c r = cell_of d c r"
  by (simp add: cell_of_def colnames_def)

lemma map_insort_key:
  "map f (insort_key (\<lambda>a. g (f a)) a xs) = insort_key g (f a) (map f xs)"
  by (induction xs) auto

lemma map_sort_key:
  "map f (sort_key (\<lambda>a. g (f a)) xs) = sort_key g (map f xs)"
  by (induction xs) (auto simp: map_insort_key)

text \<open>
  Fitting to the observations, the points of the line are the covariate values of the rows
  that miss neither cell, sorted in ascending order.
\<close>

lemma fit_to_obs_grid_sorted:
  assumes "plot_simple_regression sm data x y intercept use_formula formula_latex model alpha
             show_ci show_pi True x_vector
           = Inr (SimpleRegressionFigure x_plot pred_table ci_band pi_band spans title)"
  shows "x_plot
         = sort_key cell_key
             (map (\<lambda>(i, r). cell_of data x r)
                (filter (\<lambda>(i, r). \<not> isna (cell_of data x r) \<and> \<not> isna (cell_of data y r))
                   (rows data)))
    \<and> sorted (map cell_key x_plot)"
proof -
  define d0 where "d0 = dropna (select_cols data [x, y])"
  define k where "k = (\<lambda>(i :: nat, r). cell_key (cell_of d0 x r))"
  define work where "work = reset_index (d0 \<lparr> rows := sort_key k (rows d0) \<rparr>)"
  have cw: "columns work = columns d0"
    by (simp add: work_def reset_index_def)
  have xp: "x_plot = to_numpy (getcol work x)"
    using assms
    unfolding plot_simple_regression_def sort_values_def d0_def [symmetric] k_def [symmetric]
    by (auto simp: bindE_def Let_def work_def split: if_splits sum.splits)
  have rw: "map snd (rows work) = map snd (sort_key k (rows d0))"
    by (simp add: work_def reset_index_def)
  have "x_plot = map (\<lambda>p. cell_of d0 x (snd p)) (rows work)"
    unfolding xp to_numpy_def getcol_def
    by (simp add: comp_def split_def cell_of_same_columns [OF cw])
  also have "\<dots> = map (cell_of d0 x) (map snd (rows work))"
    by (simp add: comp_def)
  also have "\<dots> = map (\<lambda>p. cell_of d0 x (snd p)) (sort_key k (rows d0))"
    unfolding rw by (simp add: comp_def)
  also have "\<dots> = map (\<lambda>p. cell_of d0 x (snd p))
                     (sort_key (\<lambda>p. cell_key (cell_of d0 x (snd p))) (rows d0))"
    by (simp add: k_def split_def)
  also have "\<dots> = sort_key cell_key (map (\<lambda>p. cell_of d0 x (snd p)) (rows d0))"
    by (rule map_sort_key)
  also have "map (\<lambda>p. cell_of d0 x (snd p)) (rows d0)
             = map (\<lambda>(i, r). cell_of data x r)
                 (filter (\<lambda>(i, r). \<not> isna (cell_of data x r) \<and> \<not> isna (cell_of data y r))
                    (rows data))"
    unfolding d0_def
    by (induction "rows data" arbitrary: data)
       (auto simp: dropna_def select_cols_def cell_of_def colnames_def filter_map comp_def split_def)
  finally have xs: "x_plot
         = sort_key cell_key
             (map (\<lambda>(i, r). cell_of data x r)
                (filter (\<lambda>(i, r). \<not> isna (cell_of data x r) \<and> \<not> isna (cell_of data y r))
                   (rows data)))" .
  have "sorted (map cell_key x_plot)"
    unfolding xs by simp
  then show ?thesis using xs by simp
qed

text \<open>Otherwise the points of the line are the grid the controller parsed.\<close>

lemma range_grid_is_plotted:
  assumes "plot_simple_regression sm data x y intercept use_formula formula_latex model alpha
             show_ci show_pi False (Some grid)
           = Inr (SimpleRegressionFigure x_plot pred_table ci_band pi_band spans title)"
  shows "x_plot = map Num grid"
  using assms
  by (auto simp: plot_simple_regression_def bindE_def Let_def split: sum.splits)

text \<open>
  Claim C9. The claim has every range whose minimum is not strictly below its maximum fail.
  The parser tests \<open>lo >= hi\<close>, which is false for nan: the range \<open>nan, 1\<close> is accepted, and the
  grid handed on is 99 times nan and then 1, not 100 evenly spaced points. The parser of
  the confidence level, written as \<open>not (0 < level < 1)\<close>, does reject nan. With the stand-in
  for statsmodels the whole controller call returns a result for that range.
\<close>

theorem parse_range_accepts_nan_minimum:
  "parse_range ''nan, 1'' = Inr (Some (replicate 99 NaN @ [Fin 1]))
   \<and> py_float ''nan'' = Some NaN
   \<and> pf_less NaN (Fin 1) = False
   \<and> parse_confidence_level ''nan'' = Inl ConfidenceOutOfRange
   \<and> (case run_linear_regression sm_stub 4 (Some xy_df) None False [] [] (Some ''y'') [''x''] ''0.95''
              True True ''Simple Regression'' False False False ''nan, 1'' of
         Inl e \<Rightarrow> False | Inr r \<Rightarrow> True)"
  by code_simp

end
